theory Spec2Isabelle
  imports Complex_Main "HOL-Library.Log_Nat"
begin

section \<open>Numbers of the Python runtime\<close>

text \<open>
  \<^verbatim>\<open>decimal.Decimal\<close> values are modelled as rationals: every DecimalField of
  \<^verbatim>\<open>loans/models.py\<close> and \<^verbatim>\<open>loans/serializers.py\<close> holds at most 12 digits, so the
  sums, products and the division by 100000 that the code performs stay far below the
  28 significant digits of the default decimal context and are exact.

  A finite binary64 \<^verbatim>\<open>float\<close> is modelled as the rational it denotes. Every float
  operation of the code (\<^verbatim>\<open>float(d)\<close>, \<^verbatim>\<open>+\<close>, \<^verbatim>\<open>-\<close>, \<^verbatim>\<open>*\<close>, \<^verbatim>\<open>/\<close>, and \<^verbatim>\<open>int / int\<close>)
  returns the exact result rounded to the nearest double, ties to even, which is
  \<open>fl\<close> below (53-bit significand, gradual underflow down to \<open>2 ^ -1074\<close>).
  Results beyond the largest finite double are outside the model.
\<close>

type_synonym decimal = rat
type_synonym double = rat

datatype py_error = ZeroDivisionError | OverflowError | InvalidOperation

definition pow2 :: "int \<Rightarrow> rat" where
  "pow2 k = (if 0 \<le> k then 2 ^ nat k else 1 / 2 ^ nat (- k))"

definition pow10 :: "int \<Rightarrow> rat" where
  "pow10 k = (if 0 \<le> k then 10 ^ nat k else 1 / 10 ^ nat (- k))"

text \<open>\<open>ilog b x\<close> is \<open>\<lfloor>log\<^sub>b x\<rfloor>\<close> for a positive rational \<open>x\<close>.\<close>

definition ilog :: "nat \<Rightarrow> rat \<Rightarrow> int" where
  "ilog b x = (if 1 \<le> x then int (floorlog b (nat \<lfloor>x\<rfloor>)) - 1
               else - int (floorlog b (nat (\<lceil>1 / x\<rceil> - 1))))"

definition round_half_even :: "rat \<Rightarrow> int" where
  "round_half_even x =
     (let n = \<lfloor>x\<rfloor>; r = x - of_int n
      in if r < 1 / 2 then n else if 1 / 2 < r then n + 1
         else if even n then n else n + 1)"

definition fl :: "rat \<Rightarrow> double" where
  "fl x = (if x = 0 then 0
           else let e = max (ilog 2 \<bar>x\<bar> - 52) (- 1074)
                in sgn x * of_int (round_half_even (\<bar>x\<bar> / pow2 e)) * pow2 e)"

text \<open>
  \<^verbatim>\<open>str(x)\<close> of a float is the shortest decimal string that reads back as \<open>x\<close>;
  at most 17 significant digits are needed. \<open>float_repr x\<close> is the number that string
  denotes, which is what \<^verbatim>\<open>Decimal(str(x))\<close> holds.
\<close>

definition round_sig :: "rat \<Rightarrow> nat \<Rightarrow> rat" where
  "round_sig x n =
     (let s = pow10 (ilog 10 \<bar>x\<bar> - (int n - 1))
      in sgn x * of_int (round_half_even (\<bar>x\<bar> / s)) * s)"

function repr_from :: "double \<Rightarrow> nat \<Rightarrow> decimal" where
  "repr_from x n =
     (if 17 \<le> n \<or> fl (round_sig x n) = x then round_sig x n
      else repr_from x (Suc n))"
  by pat_completeness auto
termination
  by (relation "measure (\<lambda>(x, n). 17 - n)") auto

definition float_repr :: "double \<Rightarrow> decimal" where
  "float_repr x = (if x = 0 then 0 else repr_from x 1)"

text \<open>
  \<^verbatim>\<open>d.quantize(Decimal('0.01'), rounding=ROUND_HALF_UP)\<close> is \<open>quantize_half_up d 2\<close>, and
  \<^verbatim>\<open>d.quantize(Decimal('1'), rounding=ROUND_HALF_UP)\<close> is \<open>quantize_half_up d 0\<close>:
  ROUND_HALF_UP rounds the magnitude, ties away from zero, and the operation raises
  InvalidOperation when the coefficient of the result needs more than 28 digits.
\<close>

definition quantize_half_up :: "decimal \<Rightarrow> nat \<Rightarrow> py_error + decimal" where
  "quantize_half_up d places =
     (let n = \<lfloor>\<bar>d\<bar> * 10 ^ places + 1 / 2\<rfloor>
      in if 10 ^ 28 \<le> n then Inl InvalidOperation
         else Inr (sgn d * of_int n / 10 ^ places))"

text \<open>
  The spec's words for the same rounding, on a non-negative amount: the value is scaled
  to the unit, and the scaled quotient is rounded to the nearest integer, a half going up.
\<close>

definition spec_round_half_up :: "rat \<Rightarrow> rat \<Rightarrow> rat" where
  "spec_round_half_up unit x = of_int \<lfloor>x / unit + 1 / 2\<rfloor> * unit"

section \<open>Data model (loans/models.py)\<close>

record date =
  d_year :: int
  d_month :: nat
  d_day :: nat

definition date_le :: "date \<Rightarrow> date \<Rightarrow> bool" where
  "date_le a b \<longleftrightarrow>
     d_year a < d_year b \<or>
     (d_year a = d_year b \<and>
       (d_month a < d_month b \<or> (d_month a = d_month b \<and> d_day a \<le> d_day b)))"

record customer =
  customer_id :: int
  first_name :: string
  last_name :: string
  age :: nat
  phone_number :: int
  monthly_salary :: decimal
  approved_limit :: decimal
  current_debt :: decimal

record loan =
  loan_id :: int
  loan_customer :: int
  loan_amount :: decimal
  tenure :: nat
  interest_rate :: decimal
  monthly_repayment :: decimal
  emis_paid_on_time :: nat
  start_date :: date
  end_date :: date

text \<open>
  The storage: the customer and loan tables in insertion order, and the counters behind
  the two AutoFields. \<^verbatim>\<open>Customer.objects.get(customer_id=cid)\<close> is \<open>get_customer\<close>
  (\<open>None\<close> for DoesNotExist), and \<^verbatim>\<open>customer.save()\<close> rewrites the row with the
  record's primary key.
\<close>

record db =
  customers :: "customer list"
  loans :: "loan list"
  next_customer_id :: int
  next_loan_id :: int

definition get_customer :: "db \<Rightarrow> int \<Rightarrow> customer option" where
  "get_customer s cid = find (\<lambda>c. customer_id c = cid) (customers s)"

definition save_customer :: "customer \<Rightarrow> db \<Rightarrow> db" where
  "save_customer c s =
     s\<lparr>customers := map (\<lambda>x. if customer_id x = customer_id c then c else x) (customers s)\<rparr>"

section \<open>CreditScoreCalculator (loans/services.py)\<close>

definition customer_loans_of :: "db \<Rightarrow> customer \<Rightarrow> loan list" where
  "customer_loans_of s c = filter (\<lambda>l. loan_customer l = customer_id c) (loans s)"

definition calculate_credit_score :: "date \<Rightarrow> db \<Rightarrow> customer \<Rightarrow> py_error + rat" where
  "calculate_credit_score today s c =
     (let customer_loans = customer_loans_of s c
      in if customer_loans = [] then Inr 50
         else
           let total_current_loans = sum_list (map loan_amount customer_loans)
           in if total_current_loans > approved_limit c then Inr 0
              else
                let total_loans = length customer_loans
                in if total_loans = 0 then Inr 50
                   else
                     let total_emis = sum_list (map tenure customer_loans);
                         total_paid_on_time = sum_list (map emis_paid_on_time customer_loans);
                         on_time_ratio = fl (of_nat total_paid_on_time / of_nat (max total_emis 1));
                         on_time_score = min 40 (fl (on_time_ratio * 40));
                         loan_count_score = max 0 (20 - int total_loans * 2);
                         current_year_loans =
                           length (filter (\<lambda>l. d_year (start_date l) = d_year today) customer_loans);
                         activity_score = min 20 (int current_year_loans * 5);
                         total_approved_volume = sum_list (map loan_amount customer_loans)
                     in if fl (approved_limit c) = 0 then Inl ZeroDivisionError
                        else
                          let volume_ratio = min 1 (fl (fl total_approved_volume / fl (approved_limit c)));
                              volume_score = fl (volume_ratio * 20);
                              total_score =
                                fl (fl (fl (on_time_score + of_int loan_count_score)
                                        + of_int activity_score) + volume_score)
                          in Inr (min 100 (max 0 total_score)))"

section \<open>LoanEligibilityService (loans/services.py)\<close>

text \<open>
  \<^verbatim>\<open>x ** n\<close> on floats calls the platform's \<^verbatim>\<open>pow\<close>, whose rounding the language does not
  fix; it is a parameter \<open>pw\<close> of the model, and may raise OverflowError.
\<close>

type_synonym float_pow = "double \<Rightarrow> nat \<Rightarrow> py_error + double"

definition calculate_monthly_installment ::
  "float_pow \<Rightarrow> decimal \<Rightarrow> decimal \<Rightarrow> nat \<Rightarrow> py_error + decimal" where
  "calculate_monthly_installment pw amount rate n =
     (let principal = fl amount;
          monthly_rate = fl (fl rate / 1200)
      in if monthly_rate = 0 then
           (if n = 0 then Inl ZeroDivisionError
            else quantize_half_up (float_repr (fl (principal / fl (of_nat n)))) 2)
         else
           (case pw (fl (1 + monthly_rate)) n of
              Inl e \<Rightarrow> Inl e
            | Inr g \<Rightarrow>
                if fl (g - 1) = 0 then Inl ZeroDivisionError
                else quantize_half_up
                       (float_repr (fl (fl (fl (principal * monthly_rate) * g) / fl (g - 1)))) 2))"

definition get_corrected_interest_rate :: "rat \<Rightarrow> decimal \<Rightarrow> decimal" where
  "get_corrected_interest_rate credit_score requested_rate =
     (if credit_score > 50 then max requested_rate 0
      else if credit_score > 30 then max requested_rate 12
      else if credit_score > 10 then max requested_rate 16
      else requested_rate)"

record verdict =
  approval :: bool
  message :: string
  v_interest_rate :: decimal
  corrected_interest_rate :: decimal
  monthly_installment :: decimal

definition current_emi_sum :: "date \<Rightarrow> db \<Rightarrow> customer \<Rightarrow> decimal" where
  "current_emi_sum today s c =
     sum_list (map monthly_repayment
       (filter (\<lambda>l. loan_customer l = customer_id c \<and> date_le today (end_date l)) (loans s)))"

definition check_eligibility ::
  "float_pow \<Rightarrow> date \<Rightarrow> db \<Rightarrow> int \<Rightarrow> decimal \<Rightarrow> decimal \<Rightarrow> nat \<Rightarrow> py_error + verdict" where
  "check_eligibility pw today s cid amount rate n =
     (case get_customer s cid of
        None \<Rightarrow>
          Inr \<lparr>approval = False, message = ''Customer not found'', v_interest_rate = rate,
               corrected_interest_rate = rate, monthly_installment = 0\<rparr>
      | Some c \<Rightarrow>
          (case calculate_credit_score today s c of
             Inl e \<Rightarrow> Inl e
           | Inr credit_score \<Rightarrow>
               let corrected_rate = get_corrected_interest_rate credit_score rate
               in (case calculate_monthly_installment pw amount corrected_rate n of
                     Inl e \<Rightarrow> Inl e
                   | Inr installment \<Rightarrow>
                       if credit_score \<le> 10 then
                         Inr \<lparr>approval = False,
                              message = ''Credit score too low for loan approval'',
                              v_interest_rate = rate, corrected_interest_rate = corrected_rate,
                              monthly_installment = 0\<rparr>
                       else
                         let total_emi_with_new_loan = current_emi_sum today s c + installment;
                             max_allowed_emi = monthly_salary c * (1 / 2)
                         in if total_emi_with_new_loan > max_allowed_emi then
                              Inr \<lparr>approval = False,
                                   message = ''Total EMI would exceed 50% of monthly salary'',
                                   v_interest_rate = rate, corrected_interest_rate = corrected_rate,
                                   monthly_installment = 0\<rparr>
                            else
                              let (ok, msg) =
                                   (if credit_score > 50 then (True, ''Loan approved'')
                                    else if credit_score > 30 then
                                      (if corrected_rate < 12
                                       then (False, ''Interest rate too low for credit score'')
                                       else (True, ''Loan approved with corrected interest rate''))
                                    else if credit_score > 10 then
                                      (if corrected_rate < 16
                                       then (False, ''Interest rate too low for credit score'')
                                       else (True, ''Loan approved with corrected interest rate''))
                                    else (False, ''Credit score too low for loan approval''))
                              in Inr \<lparr>approval = ok, message = msg, v_interest_rate = rate,
                                      corrected_interest_rate = corrected_rate,
                                      monthly_installment = (if ok then installment else 0)\<rparr>)))"

section \<open>Loan issuance (loans/views.py, create_loan)\<close>

text \<open>
  \<^verbatim>\<open>start_date + relativedelta(months=n)\<close>: dateutil normalises \<open>n\<close> months to
  \<open>n div 12\<close> years and \<open>n mod 12\<close> months, adds them to the year and the month, carries
  a month above 12 into the year, and clamps the day to the length of the target month.
\<close>

definition is_leap :: "int \<Rightarrow> bool" where
  "is_leap y \<longleftrightarrow> y mod 4 = 0 \<and> (y mod 100 \<noteq> 0 \<or> y mod 400 = 0)"

definition days_in_month :: "int \<Rightarrow> nat \<Rightarrow> nat" where
  "days_in_month y m =
     (if m = 2 then (if is_leap y then 29 else 28)
      else if m = 4 \<or> m = 6 \<or> m = 9 \<or> m = 11 then 30 else 31)"

definition add_months :: "date \<Rightarrow> nat \<Rightarrow> date" where
  "add_months d n =
     (let y0 = d_year d + int (n div 12);
          m0 = d_month d + n mod 12;
          y = (if 12 < m0 then y0 + 1 else y0);
          m = (if 12 < m0 then m0 - 12 else m0)
      in \<lparr>d_year = y, d_month = m, d_day = min (days_in_month y m) (d_day d)\<rparr>)"

record loan_request =
  rq_customer_id :: int
  rq_loan_amount :: decimal
  rq_interest_rate :: decimal
  rq_tenure :: int

text \<open>
  A serializer DecimalField with \<^verbatim>\<open>max_digits\<close> and \<^verbatim>\<open>decimal_places\<close> accepts a value
  with at most that many decimal places and at most \<^verbatim>\<open>max_digits - decimal_places\<close>
  digits before the point. \<open>create_loan_valid\<close> is \<^verbatim>\<open>CreateLoanSerializer.is_valid()\<close>.
\<close>

definition decimal_field_ok :: "nat \<Rightarrow> nat \<Rightarrow> decimal \<Rightarrow> bool" where
  "decimal_field_ok max_digits places d \<longleftrightarrow>
     d * 10 ^ places = of_int \<lfloor>d * 10 ^ places\<rfloor> \<and> \<bar>d\<bar> < 10 ^ (max_digits - places)"

definition create_loan_valid :: "db \<Rightarrow> loan_request \<Rightarrow> bool" where
  "create_loan_valid s rq \<longleftrightarrow>
     get_customer s (rq_customer_id rq) \<noteq> None
     \<and> decimal_field_ok 12 2 (rq_loan_amount rq) \<and> 1 / 100 \<le> rq_loan_amount rq
     \<and> decimal_field_ok 5 2 (rq_interest_rate rq) \<and> 0 \<le> rq_interest_rate rq
     \<and> 1 \<le> rq_tenure rq \<and> rq_tenure rq \<le> 360"

record create_loan_response =
  status :: nat
  r_loan_id :: "int option"
  r_customer_id :: int
  loan_approved :: bool
  r_message :: string
  r_monthly_installment :: "decimal option"

datatype response = Created_Loan_Response create_loan_response | Validation_Errors

definition create_loan ::
  "float_pow \<Rightarrow> date \<Rightarrow> db \<Rightarrow> loan_request \<Rightarrow> py_error + (response \<times> db)" where
  "create_loan pw today s rq =
     (if \<not> create_loan_valid s rq then Inr (Validation_Errors, s)
      else
        (case check_eligibility pw today s (rq_customer_id rq) (rq_loan_amount rq)
                (rq_interest_rate rq) (nat (rq_tenure rq)) of
           Inl e \<Rightarrow> Inl e
         | Inr result \<Rightarrow>
             if \<not> approval result then
               Inr (Created_Loan_Response
                      \<lparr>status = 200, r_loan_id = None, r_customer_id = rq_customer_id rq,
                       loan_approved = False, r_message = message result,
                       r_monthly_installment = None\<rparr>, s)
             else
               (case get_customer s (rq_customer_id rq) of
                  None \<Rightarrow>
                    Inr (Created_Loan_Response
                           \<lparr>status = 404, r_loan_id = None, r_customer_id = rq_customer_id rq,
                            loan_approved = False, r_message = ''Customer not found'',
                            r_monthly_installment = None\<rparr>, s)
                | Some c \<Rightarrow>
                    let start = today;
                        new_loan =
                          \<lparr>loan_id = next_loan_id s, loan_customer = customer_id c,
                           loan_amount = rq_loan_amount rq, tenure = nat (rq_tenure rq),
                           interest_rate = corrected_interest_rate result,
                           monthly_repayment = monthly_installment result,
                           emis_paid_on_time = 0, start_date = start,
                           end_date = add_months start (nat (rq_tenure rq))\<rparr>;
                        s1 = s\<lparr>loans := loans s @ [new_loan],
                               next_loan_id := next_loan_id s + 1\<rparr>;
                        s2 = save_customer
                               (c\<lparr>current_debt := current_debt c + rq_loan_amount rq\<rparr>) s1
                    in Inr (Created_Loan_Response
                              \<lparr>status = 201, r_loan_id = Some (loan_id new_loan),
                               r_customer_id = rq_customer_id rq, loan_approved = True,
                               r_message = ''Loan approved successfully'',
                               r_monthly_installment = Some (monthly_installment result)\<rparr>,
                            s2))))"

section \<open>Registration (loans/serializers.py, CustomerRegistrationSerializer.create)\<close>



section \<open>Sample data\<close>

text \<open>
  A \<^verbatim>\<open>pow\<close> that rounds the exact power correctly, the customer of the repository's
  tests (salary 50000, limit 1800000), and stores built from them.
\<close>

definition pw_exact :: float_pow where
  "pw_exact x n = Inr (fl (x ^ n))"

definition day0 :: date where
  "day0 = \<lparr>d_year = 2024, d_month = 1, d_day = 31\<rparr>"

definition test_customer :: customer where
  "test_customer =
     \<lparr>customer_id = 1, first_name = ''Test'', last_name = ''Customer'', age = 30,
      phone_number = 1234567890, monthly_salary = 50000, approved_limit = 1800000,
      current_debt = 0\<rparr>"


definition test_db :: db where
  "test_db = \<lparr>customers = [test_customer], loans = [], next_customer_id = 2, next_loan_id = 1\<rparr>"

definition big_loan :: loan where
  "big_loan =
     \<lparr>loan_id = 1, loan_customer = 1, loan_amount = 2000000, tenure = 12,
      interest_rate = 10, monthly_repayment = 30000, emis_paid_on_time = 12,
      start_date = \<lparr>d_year = 2023, d_month = 6, d_day = 1\<rparr>,
      end_date = \<lparr>d_year = 2024, d_month = 6, d_day = 1\<rparr>\<rparr>"

definition indebted_db :: db where
  "indebted_db = test_db\<lparr>loans := [big_loan], next_loan_id := 2\<rparr>"


definition unapproved_customer :: customer where
  "unapproved_customer = test_customer\<lparr>approved_limit := 0\<rparr>"

section \<open>Rate correction\<close>

text \<open>
  Claim C1. For every score and every requested rate \<open>r \<ge> 0\<close> the corrected rate follows
  the banding table: \<open>max r 0\<close> above 50, \<open>max r 12\<close> for \<open>30 < score \<le> 50\<close>, \<open>max r 16\<close>
  for \<open>10 < score \<le> 30\<close>, and \<open>r\<close> itself at 10 or below; it is never below \<open>r\<close>.
\<close>

theorem corrected_rate_banding:
  assumes "0 \<le> r"
  shows "(50 < score \<longrightarrow> get_corrected_interest_rate score r = max r 0)
       \<and> (30 < score \<and> score \<le> 50 \<longrightarrow> get_corrected_interest_rate score r = max r 12)
       \<and> (10 < score \<and> score \<le> 30 \<longrightarrow> get_corrected_interest_rate score r = max r 16)
       \<and> (score \<le> 10 \<longrightarrow> get_corrected_interest_rate score r = r)
       \<and> r \<le> get_corrected_interest_rate score r"
  using assms by (simp add: get_corrected_interest_rate_def)

theorem corrected_rate_banding_witness:
  "(0::rat) \<le> 8 \<and> get_corrected_interest_rate 60 8 = 8
   \<and> get_corrected_interest_rate 40 8 = 12
   \<and> get_corrected_interest_rate 20 8 = 16
   \<and> get_corrected_interest_rate 10 8 = 8"
  using corrected_rate_banding [of 8 60] corrected_rate_banding [of 8 40]
        corrected_rate_banding [of 8 20] corrected_rate_banding [of 8 10]
  by simp

section \<open>Credit score\<close>

lemma score_no_loans:
  "customer_loans_of s c = [] \<Longrightarrow> calculate_credit_score today s c = Inr 50"
  by (simp add: calculate_credit_score_def)

lemma no_loans_no_emi:
  assumes "customer_loans_of s c = []"
  shows "current_emi_sum today s c = 0"
proof -
  have "filter (\<lambda>l. loan_customer l = customer_id c \<and> date_le today (end_date l)) (loans s)
        = filter (\<lambda>l. date_le today (end_date l)) (customer_loans_of s c)"
    by (simp add: customer_loans_of_def conj_commute)
  with assms show ?thesis by (simp add: current_emi_sum_def)
qed

text \<open>
  Claim C5. A customer with at least one loan whose loan amounts sum to more than the
  approved limit scores exactly 0, whatever the repayment record, the number of loans,
  the activity of the current year or the volume.
\<close>

theorem overextended_score_zero:
  assumes "customer_loans_of s c \<noteq> []"
    and "approved_limit c < sum_list (map loan_amount (customer_loans_of s c))"
  shows "calculate_credit_score today s c = Inr 0"
  using assms by (simp add: calculate_credit_score_def Let_def)

theorem overextended_score_zero_witness:
  "customer_loans_of indebted_db test_customer \<noteq> []
   \<and> approved_limit test_customer
       < sum_list (map loan_amount (customer_loans_of indebted_db test_customer))
   \<and> calculate_credit_score day0 indebted_db test_customer = Inr 0"
proof -
  have a: "customer_loans_of indebted_db test_customer \<noteq> []"
    by (simp add: customer_loans_of_def indebted_db_def test_db_def big_loan_def test_customer_def)
  have b: "approved_limit test_customer
       < sum_list (map loan_amount (customer_loans_of indebted_db test_customer))"
    by (simp add: customer_loans_of_def indebted_db_def test_db_def big_loan_def test_customer_def)
  from a b overextended_score_zero [OF a b, of day0] show ?thesis by simp
qed

section \<open>Eligibility decision\<close>

text \<open>
  Claim C6. For a customer id that is not in storage, the eligibility check returns a
  verdict (it raises nothing): not approved, message "Customer not found", installment 0,
  and the corrected rate equal to the requested rate.
\<close>

theorem unknown_customer_verdict:
  assumes "get_customer s cid = None"
  shows "check_eligibility pw today s cid amount rate n =
           Inr \<lparr>approval = False, message = ''Customer not found'', v_interest_rate = rate,
                corrected_interest_rate = rate, monthly_installment = 0\<rparr>"
  using assms by (simp add: check_eligibility_def)

theorem unknown_customer_verdict_witness:
  "get_customer test_db 99999 = None
   \<and> check_eligibility pw_exact day0 test_db 99999 100000 (105 / 10) 12 =
           Inr \<lparr>approval = False, message = ''Customer not found'', v_interest_rate = 105 / 10,
                corrected_interest_rate = 105 / 10, monthly_installment = 0\<rparr>"
proof -
  have a: "get_customer test_db 99999 = None"
    by (simp add: get_customer_def test_db_def test_customer_def)
  from a unknown_customer_verdict [OF a] show ?thesis by simp
qed

section \<open>Registration\<close>



section \<open>Rounding to a double never loses a stored amount\<close>

lemma pow2_pos: "0 < pow2 k"
  by (simp add: pow2_def)

lemma pow2_mono: "a \<le> b \<Longrightarrow> pow2 a \<le> pow2 b"
proof -
  assume ab: "a \<le> b"
  have eq: "pow2 k = 2 powi k" for k
    by (simp add: pow2_def power_int_def field_simps)
  show ?thesis unfolding eq using ab by (intro power_int_increasing) simp_all
qed

lemma ilog2_lower:
  assumes "0 < x"
  shows "pow2 (ilog 2 x) \<le> x"
proof (cases "1 \<le> x")
  case True
  let ?N = "nat \<lfloor>x\<rfloor>"
  let ?k = "floorlog 2 ?N"
  have N: "0 < ?N" using True by simp
  from floorlog_bounds [OF N, of 2] have "2 ^ (?k - 1) \<le> ?N" by simp
  then have "(of_nat (2 ^ (?k - 1)) :: rat) \<le> of_nat ?N" by (simp only: of_nat_le_iff)
  then have "(2::rat) ^ (?k - 1) \<le> of_nat ?N" by simp
  also have "(of_nat ?N :: rat) = of_int \<lfloor>x\<rfloor>" using True by simp
  also have "\<dots> \<le> x" by simp
  finally have le: "(2::rat) ^ (?k - 1) \<le> x" .
  have k1: "1 \<le> ?k" using N by (simp add: floorlog_def)
  then have "nat (int ?k - 1) = ?k - 1" by simp
  with le k1 True show ?thesis by (simp add: ilog_def pow2_def)
next
  case False
  let ?M = "nat (\<lceil>1 / x\<rceil> - 1)"
  let ?k = "floorlog 2 ?M"
  have "1 < 1 / x" using False assms by simp
  then have c2: "2 \<le> \<lceil>1 / x\<rceil>" by (simp add: less_ceiling_iff)
  have "?M < 2 ^ ?k"
  proof (cases "?M = 0")
    case True then show ?thesis by simp
  next
    case False
    then have "0 < ?M" by simp
    from floorlog_bounds [OF this, of 2] show ?thesis by simp
  qed
  then have "int ?M < int (2 ^ ?k)" by (simp only: of_nat_less_iff)
  then have "int ?M < 2 ^ ?k" by simp
  moreover have "0 \<le> \<lceil>1 / x\<rceil> - 1" using c2 by linarith
  then have "int ?M = \<lceil>1 / x\<rceil> - 1" by (rule nat_0_le)
  ultimately have "\<lceil>1 / x\<rceil> \<le> 2 ^ ?k" by linarith
  then have "(of_int \<lceil>1 / x\<rceil> :: rat) \<le> of_int (2 ^ ?k)" by (simp only: of_int_le_iff)
  then have "(of_int \<lceil>1 / x\<rceil> :: rat) \<le> 2 ^ ?k" by simp
  moreover have "1 / x \<le> of_int \<lceil>1 / x\<rceil>" by (rule le_of_int_ceiling)
  ultimately have "1 / x \<le> 2 ^ ?k" by linarith
  then have "1 / 2 ^ ?k \<le> x" using assms
    by (simp add: field_simps)
  moreover have "0 < ?M" using c2 by linarith
  then have "0 < ?k" by (simp add: floorlog_def)
  ultimately show ?thesis using False
    by (simp add: ilog_def pow2_def)
qed

lemma round_half_even_ge: "\<lfloor>x\<rfloor> \<le> round_half_even x"
  by (simp add: round_half_even_def Let_def)

lemma fl_pos:
  assumes "1 / 100 \<le> x"
  shows "0 < fl x"
proof -
  have x: "0 < x" using assms by simp
  define e where "e = max (ilog 2 \<bar>x\<bar> - 52) (- 1074)"
  have "pow2 e \<le> x"
  proof (cases "ilog 2 \<bar>x\<bar> - 52 \<le> - 1074")
    case True
    then have "e = - 1074" by (simp add: e_def)
    moreover have "pow2 (- 1074) \<le> pow2 (- 7)" by (rule pow2_mono) simp
    moreover have "pow2 (- 7) \<le> 1 / 100" by (simp add: pow2_def)
    ultimately show ?thesis using assms by simp
  next
    case False
    then have "e = ilog 2 x - 52" using x by (simp add: e_def)
    then have "pow2 e \<le> pow2 (ilog 2 x)" by (simp add: pow2_mono)
    with ilog2_lower [OF x] show ?thesis by simp
  qed
  then have "1 \<le> x / pow2 e" using pow2_pos [of e] by (simp add: field_simps)
  then have "(1::int) \<le> \<lfloor>x / pow2 e\<rfloor>" by (simp add: le_floor_iff)
  also have "\<dots> \<le> round_half_even (x / pow2 e)" by (rule round_half_even_ge)
  finally have "1 \<le> round_half_even (x / pow2 e)" .
  then have "(0::rat) < of_int (round_half_even (x / pow2 e))" by simp
  then have "0 < (of_int (round_half_even (x / pow2 e)) :: rat) * pow2 e"
    using pow2_pos [of e] by (simp add: zero_less_mult_iff)
  then show ?thesis using x by (simp add: fl_def Let_def e_def)
qed


lemma sum_list_map_nonneg:
  "\<forall>x \<in> set xs. (0::rat) < f x \<Longrightarrow> 0 \<le> sum_list (map f xs)"
  by (induction xs) (simp_all add: add_nonneg_nonneg less_imp_le)

lemma sum_list_map_pos:
  assumes "xs \<noteq> []" and "\<forall>x \<in> set xs. (0::rat) < f x"
  shows "0 < sum_list (map f xs)"
proof (cases xs)
  case Nil
  with assms(1) show ?thesis by simp
next
  case (Cons a ys)
  with assms(2) have "0 < f a" and "0 \<le> sum_list (map f ys)"
    by (simp_all add: sum_list_map_nonneg)
  then show ?thesis using Cons by (simp add: add_pos_nonneg)
qed

lemma two_places_pos:
  assumes "decimal_field_ok m 2 d" and "0 < d"
  shows "1 / 100 \<le> d"
proof -
  from assms(1) have eq: "d * 100 = of_int \<lfloor>d * 100\<rfloor>"
    by (simp add: decimal_field_ok_def)
  have "0 < d * 100" using assms(2) by simp
  then have "0 < \<lfloor>d * 100\<rfloor>" using eq by (metis of_int_0_less_iff)
  then have "(1::rat) \<le> of_int \<lfloor>d * 100\<rfloor>" by simp
  with eq have "1 \<le> d * 100" by simp
  then show ?thesis by simp
qed

text \<open>
  Claim C10. The score never divides by zero at the volume ratio. When every loan has a
  positive amount (and the approved limit is a value of its two-decimal field), a
  customer with approved limit 0 and at least one loan trips the overextension guard and
  scores 0 before the division; the division is reached only with a positive limit.
\<close>

theorem volume_division_guarded:
  assumes "\<forall>l \<in> set (loans s). 0 < loan_amount l"
    and "decimal_field_ok 12 2 (approved_limit c)"
  shows "calculate_credit_score today s c \<noteq> Inl ZeroDivisionError
       \<and> (approved_limit c = 0 \<and> customer_loans_of s c \<noteq> []
            \<longrightarrow> calculate_credit_score today s c = Inr 0)
       \<and> (customer_loans_of s c \<noteq> []
            \<and> \<not> approved_limit c < sum_list (map loan_amount (customer_loans_of s c))
            \<longrightarrow> 0 < approved_limit c)"
proof -
  let ?L = "customer_loans_of s c"
  have pos: "0 < sum_list (map loan_amount ?L)" if "?L \<noteq> []"
  proof (rule sum_list_map_pos [OF that])
    show "\<forall>x \<in> set ?L. 0 < loan_amount x"
      using assms(1) by (simp add: customer_loans_of_def)
  qed
  have lim: "0 < approved_limit c"
    if "?L \<noteq> []" and "\<not> approved_limit c < sum_list (map loan_amount ?L)"
    using pos [OF that(1)] that(2) by linarith
  have nz: "fl (approved_limit c) \<noteq> 0"
    if "?L \<noteq> []" and "\<not> approved_limit c < sum_list (map loan_amount ?L)"
    using fl_pos [OF two_places_pos [OF assms(2) lim [OF that]]] by simp
  have a: "calculate_credit_score today s c \<noteq> Inl ZeroDivisionError"
  proof (cases "?L = []")
    case True
    then show ?thesis by (simp add: calculate_credit_score_def)
  next
    case False
    show ?thesis
    proof (cases "approved_limit c < sum_list (map loan_amount ?L)")
      case True
      with False show ?thesis by (simp add: calculate_credit_score_def Let_def)
    next
      case g: False
      from nz [OF False g] False g show ?thesis
        by (simp add: calculate_credit_score_def Let_def)
    qed
  qed
  have b: "calculate_credit_score today s c = Inr 0"
    if "approved_limit c = 0" and "?L \<noteq> []"
    using that pos [OF that(2)] by (simp add: calculate_credit_score_def Let_def)
  from a b lim show ?thesis by blast
qed

theorem volume_division_guarded_witness:
  "loans indebted_db = [big_loan] \<and> 0 < loan_amount big_loan
   \<and> decimal_field_ok 12 2 (approved_limit unapproved_customer)
   \<and> customer_loans_of indebted_db unapproved_customer \<noteq> []
   \<and> calculate_credit_score day0 indebted_db unapproved_customer = Inr 0"
proof -
  have a: "\<forall>l \<in> set (loans indebted_db). 0 < loan_amount l"
    by (simp add: indebted_db_def test_db_def big_loan_def)
  have b: "decimal_field_ok 12 2 (approved_limit unapproved_customer)"
    by (simp add: decimal_field_ok_def unapproved_customer_def test_customer_def)
  have c: "customer_loans_of indebted_db unapproved_customer \<noteq> []"
    by (simp add: customer_loans_of_def indebted_db_def test_db_def big_loan_def
        unapproved_customer_def test_customer_def)
  have d: "approved_limit unapproved_customer = 0"
    by (simp add: unapproved_customer_def)
  have e: "loans indebted_db = [big_loan]"
    by (simp add: indebted_db_def test_db_def)
  have f: "0 < loan_amount big_loan"
    by (simp add: big_loan_def)
  from b c d e f volume_division_guarded [OF a b, of day0] show ?thesis by blast
qed

section \<open>Eligibility verdicts\<close>

text \<open>
  Claim C4. For a customer whose score is above 10, when the repayments of the customer's
  loans that end today or later plus the newly computed installment exceed half of the
  monthly salary, the verdict is a rejection with message
  "Total EMI would exceed 50% of monthly salary" and installment 0, whatever installment
  was computed.
\<close>

theorem emi_over_half_salary_rejected:
  assumes "get_customer s cid = Some c"
    and "calculate_credit_score today s c = Inr sc"
    and "10 < sc"
    and "calculate_monthly_installment pw amount (get_corrected_interest_rate sc rate) n = Inr inst"
    and "monthly_salary c * (1 / 2) < current_emi_sum today s c + inst"
  shows "check_eligibility pw today s cid amount rate n =
           Inr \<lparr>approval = False, message = ''Total EMI would exceed 50% of monthly salary'',
                v_interest_rate = rate,
                corrected_interest_rate = get_corrected_interest_rate sc rate,
                monthly_installment = 0\<rparr>"
  using assms by (simp add: check_eligibility_def Let_def)

text \<open>
  Claim C9. No verdict carries the message "Interest rate too low for credit score":
  the corrected rate is at least 12 in the band \<open>30 < score \<le> 50\<close> and at least 16 in
  the band \<open>10 < score \<le> 30\<close>. Hence every request with a score above 10 that passes
  the affordability check is approved.
\<close>

theorem rate_too_low_unreachable:
  "(\<forall>v. check_eligibility pw today s cid amount rate n = Inr v
         \<longrightarrow> message v \<noteq> ''Interest rate too low for credit score'')
   \<and> (get_customer s cid = Some c \<longrightarrow> calculate_credit_score today s c = Inr sc \<longrightarrow> 10 < sc
       \<longrightarrow> calculate_monthly_installment pw amount (get_corrected_interest_rate sc rate) n = Inr inst
       \<longrightarrow> current_emi_sum today s c + inst \<le> monthly_salary c * (1 / 2)
       \<longrightarrow> (\<exists>v. check_eligibility pw today s cid amount rate n = Inr v \<and> approval v
                \<and> monthly_installment v = inst))"
  by (auto simp add: check_eligibility_def Let_def get_corrected_interest_rate_def
      split: option.splits sum.splits if_splits)

text \<open>
  Claim C2. An existing customer without loans scores exactly 50; a request of 100000 at
  10.5 percent over 12 months is then corrected to 12 percent (50 is in the band
  \<open>30 < score \<le> 50\<close>), and when the installment fits in half the salary the verdict is
  an approval with message "Loan approved with corrected interest rate".
\<close>

theorem new_customer_scenario:
  assumes "get_customer s cid = Some c"
    and "customer_loans_of s c = []"
    and "calculate_monthly_installment pw 100000 12 12 = Inr inst"
    and "inst \<le> monthly_salary c * (1 / 2)"
  shows "calculate_credit_score today s c = Inr 50
       \<and> get_corrected_interest_rate 50 (105 / 10) = 12
       \<and> check_eligibility pw today s cid 100000 (105 / 10) 12 =
           Inr \<lparr>approval = True, message = ''Loan approved with corrected interest rate'',
                v_interest_rate = 105 / 10, corrected_interest_rate = 12,
                monthly_installment = inst\<rparr>"
  using assms
  by (simp add: check_eligibility_def Let_def score_no_loans no_loans_no_emi
      get_corrected_interest_rate_def)

section \<open>Issuing a loan\<close>

lemma find_customer_id:
  "find (\<lambda>c. customer_id c = cid) xs = Some c \<Longrightarrow> customer_id c = cid"
  by (induction xs) (auto split: if_splits)

lemma find_after_save:
  assumes "find (\<lambda>x. customer_id x = cid) xs = Some c" and "customer_id c' = cid"
  shows "find (\<lambda>x. customer_id x = cid)
           (map (\<lambda>x. if customer_id x = customer_id c' then c' else x) xs) = Some c'"
  using assms by (induction xs) (auto split: if_splits)

lemma get_customer_saved:
  assumes "get_customer s cid = Some c"
  shows "get_customer (save_customer (c\<lparr>current_debt := d\<rparr>) (s\<lparr>loans := ls, next_loan_id := k\<rparr>)) cid
         = Some (c\<lparr>current_debt := d\<rparr>)"
proof -
  from assms have f: "find (\<lambda>x. customer_id x = cid) (customers s) = Some c"
    by (simp add: get_customer_def)
  from find_customer_id [OF f] have "customer_id (c\<lparr>current_debt := d\<rparr>) = cid" by simp
  from find_after_save [OF f this] show ?thesis
    by (simp add: get_customer_def save_customer_def)
qed

lemma approved_verdict:
  assumes v: "check_eligibility pw today s cid amount rate n = Inr v" and ap: "approval v"
  shows "\<exists>c sc. get_customer s cid = Some c \<and> calculate_credit_score today s c = Inr sc
           \<and> corrected_interest_rate v = get_corrected_interest_rate sc rate
           \<and> calculate_monthly_installment pw amount (corrected_interest_rate v) n
               = Inr (monthly_installment v)"
proof (cases "get_customer s cid")
  case None
  with v ap show ?thesis by (auto simp add: check_eligibility_def)
next
  case (Some c)
  note c = this
  show ?thesis
  proof (cases "calculate_credit_score today s c")
    case (Inl e)
    with v c show ?thesis by (simp add: check_eligibility_def)
  next
    case (Inr sc)
    note sc = this
    let ?cr = "get_corrected_interest_rate sc rate"
    show ?thesis
    proof (cases "calculate_monthly_installment pw amount ?cr n")
      case (Inl e)
      with v c sc show ?thesis by (simp add: check_eligibility_def)
    next
      case (Inr inst)
      note inst = this
      have low: "\<not> sc \<le> 10"
      proof
        assume "sc \<le> 10"
        with v c sc inst have "\<not> approval v" by (auto simp add: check_eligibility_def)
        with ap show False by simp
      qed
      have emi: "\<not> monthly_salary c * (1 / 2) < current_emi_sum today s c + inst"
      proof
        assume "monthly_salary c * (1 / 2) < current_emi_sum today s c + inst"
        with v c sc inst low have "\<not> approval v"
          by (auto simp add: check_eligibility_def Let_def)
        with ap show False by simp
      qed
      from v c sc inst low emi ap
      have "corrected_interest_rate v = ?cr \<and> monthly_installment v = inst"
        by (auto simp add: check_eligibility_def Let_def split: if_splits)
      with c sc inst show ?thesis by simp
    qed
  qed
qed

text \<open>
  Claim C7. After a successful issuance (status 201) the customer's current debt has
  grown by exactly the loan amount, and the loan appended to the table carries the
  corrected rate (not the requested one), the installment computed at that rate,
  no EMI paid on time, today as start date and start date plus tenure months as end date.
\<close>

theorem issued_loan_record:
  assumes cl: "create_loan pw today s rq = Inr (Created_Loan_Response r, s')"
    and st: "status r = 201"
  shows "\<exists>c v c' l sc.
           get_customer s (rq_customer_id rq) = Some c
         \<and> check_eligibility pw today s (rq_customer_id rq) (rq_loan_amount rq)
               (rq_interest_rate rq) (nat (rq_tenure rq)) = Inr v
         \<and> approval v
         \<and> calculate_credit_score today s c = Inr sc
         \<and> get_customer s' (rq_customer_id rq) = Some c'
         \<and> current_debt c' = current_debt c + rq_loan_amount rq
         \<and> loans s' = loans s @ [l]
         \<and> loan_customer l = rq_customer_id rq
         \<and> loan_amount l = rq_loan_amount rq
         \<and> interest_rate l = get_corrected_interest_rate sc (rq_interest_rate rq)
         \<and> calculate_monthly_installment pw (rq_loan_amount rq) (interest_rate l)
               (nat (rq_tenure rq)) = Inr (monthly_repayment l)
         \<and> emis_paid_on_time l = 0
         \<and> start_date l = today
         \<and> end_date l = add_months (start_date l) (nat (rq_tenure rq))"
proof -
  let ?cid = "rq_customer_id rq"
  let ?chk = "check_eligibility pw today s ?cid (rq_loan_amount rq) (rq_interest_rate rq)
          (nat (rq_tenure rq))"
  have valid: "create_loan_valid s rq"
  proof (rule ccontr)
    assume "\<not> create_loan_valid s rq"
    with cl show False by (simp add: create_loan_def)
  qed
  obtain v where v: "?chk = Inr v"
  proof (cases ?chk)
    case (Inl e)
    with cl valid show ?thesis by (simp add: create_loan_def)
  next
    case (Inr v)
    with that show ?thesis .
  qed
  have ap: "approval v"
  proof (rule ccontr)
    assume "\<not> approval v"
    with cl valid v st show False by (auto simp add: create_loan_def)
  qed
  from approved_verdict [OF v ap] obtain c sc where
    c: "get_customer s ?cid = Some c" and sc: "calculate_credit_score today s c = Inr sc"
    and cr: "corrected_interest_rate v = get_corrected_interest_rate sc (rq_interest_rate rq)"
    and inst: "calculate_monthly_installment pw (rq_loan_amount rq) (corrected_interest_rate v)
                 (nat (rq_tenure rq)) = Inr (monthly_installment v)"
    by blast
  define l where "l =
     \<lparr>loan_id = next_loan_id s, loan_customer = customer_id c,
      loan_amount = rq_loan_amount rq, tenure = nat (rq_tenure rq),
      interest_rate = corrected_interest_rate v,
      monthly_repayment = monthly_installment v,
      emis_paid_on_time = 0, start_date = today,
      end_date = add_months today (nat (rq_tenure rq))\<rparr>"
  define c' where "c' = c\<lparr>current_debt := current_debt c + rq_loan_amount rq\<rparr>"
  from cl valid v ap c have s': "s' = save_customer c'
      (s\<lparr>loans := loans s @ [l], next_loan_id := next_loan_id s + 1\<rparr>)"
    by (simp add: create_loan_def Let_def l_def c'_def)
  have g: "get_customer s' ?cid = Some c'"
    unfolding s' c'_def by (rule get_customer_saved [OF c])
  have ls: "loans s' = loans s @ [l]"
    by (simp add: s' save_customer_def)
  have cid: "customer_id c = ?cid"
    using c find_customer_id [of ?cid "customers s" c] by (simp add: get_customer_def)
  have props: "current_debt c' = current_debt c + rq_loan_amount rq
         \<and> loan_customer l = rq_customer_id rq
         \<and> loan_amount l = rq_loan_amount rq
         \<and> interest_rate l = get_corrected_interest_rate sc (rq_interest_rate rq)
         \<and> calculate_monthly_installment pw (rq_loan_amount rq) (interest_rate l)
               (nat (rq_tenure rq)) = Inr (monthly_repayment l)
         \<and> emis_paid_on_time l = 0
         \<and> start_date l = today
         \<and> end_date l = add_months (start_date l) (nat (rq_tenure rq))"
    using cid cr inst by (simp add: l_def c'_def)
  from c v ap sc g ls props show ?thesis by blast
qed

section \<open>Installment at rate zero\<close>

text \<open>
  Claim C3. The installment is rounded to the cent half-up; at rate 0 it should equal
  principal / tenure rounded to the cent half-up. For 1000.05 over 6 months the exact
  quotient is 166.675, which rounds half-up to 166.68, but the quotient is formed in
  binary floating point and its decimal string lies below the tie, so the function
  returns 166.67.
\<close>

theorem installment_tie_rounds_down:
  "calculate_monthly_installment pw (100005 / 100) 0 6 = Inr (16667 / 100)
   \<and> spec_round_half_up (1 / 100) (100005 / 100 / 6) = 16668 / 100"
proof (rule conjI)
  show "calculate_monthly_installment pw (100005 / 100) 0 6 = Inr (16667 / 100)"
    by code_simp
  show "spec_round_half_up (1 / 100) (100005 / 100 / 6) = 16668 / 100"
    by (simp add: spec_round_half_up_def floor_eq_iff)
qed

end
